theory Spec2Isabelle
  imports Complex_Main
begin

section \<open>Request bodies\<close>

text \<open>
  Request and response bodies are JSON. A body is an object: a finite map from keys to
  JSON values, where a key that is absent reads as JavaScript's \<open>undefined\<close>
  (\<open>None\<close>). Numbers are kept exact (rationals); strings are byte strings, so
  \<open>length\<close> agrees with JavaScript's \<open>.length\<close> on ASCII text. A request whose body
  is not a JSON object is not modelled.
\<close>

datatype json =
    JNull
  | JBool bool
  | JNum rat
  | JStr string
  | JArr "json list"
  | JObj "(string \<times> json) list"

type_synonym body = "string \<rightharpoonup> json"

section \<open>The validation library, as the schemas use it\<close>

text \<open>
  The validation library is not code of the repository; its behaviour is written out
  for the constructors the schemas use.
  The schemas are built from \<open>z.object\<close>, \<open>z.string().min(n, msg)\<close>,
  \<open>.max(n, msg)\<close>, \<open>.email(msg)\<close>, \<open>z.number().int(msg).positive()\<close> and
  \<open>.optional()\<close>. A schema is the list of its keys in the order they are written.
\<close>

datatype zcheck = Min nat string | Max nat string | Email string

datatype zcheck_num = IsInt string | Positive

datatype ztype = ZString "zcheck list" | ZNumber "zcheck_num list" | ZOptional ztype

type_synonym zobject = "(string \<times> ztype) list"

datatype issue_code = invalid_type | too_small | too_big | invalid_string

record issue =
  code :: issue_code
  path :: "string list"
  message :: string

text \<open>The name the library gives to the type of a received value.\<close>

fun parsedType :: "json option \<Rightarrow> string" where
  "parsedType None = ''undefined''"
| "parsedType (Some JNull) = ''null''"
| "parsedType (Some (JBool _)) = ''boolean''"
| "parsedType (Some (JNum _)) = ''number''"
| "parsedType (Some (JStr _)) = ''string''"
| "parsedType (Some (JArr _)) = ''array''"
| "parsedType (Some (JObj _)) = ''object''"

text \<open>
  A value of the wrong type gives one \<open>invalid_type\<close> issue, whose message is
  \<open>Required\<close> when the value is absent.
\<close>

definition invalidType :: "string list \<Rightarrow> string \<Rightarrow> json option \<Rightarrow> issue" where
  "invalidType p expected v =
     \<lparr>code = invalid_type, path = p,
      message = (if v = None then ''Required''
                 else ''Expected '' @ expected @ '', received '' @ parsedType v)\<rparr>"

text \<open>
  The pattern behind \<open>.email()\<close> belongs to the library and is not part of the
  repository: the set \<open>emailRegex\<close> of the strings it accepts is a parameter.
  Every check of a string runs, each failing one adding its issue.
\<close>

fun checkString :: "string set \<Rightarrow> string list \<Rightarrow> string \<Rightarrow> zcheck \<Rightarrow> issue list" where
  "checkString emailRegex p s (Min n msg) =
     (if length s < n then [\<lparr>code = too_small, path = p, message = msg\<rparr>] else [])"
| "checkString emailRegex p s (Max n msg) =
     (if length s > n then [\<lparr>code = too_big, path = p, message = msg\<rparr>] else [])"
| "checkString emailRegex p s (Email msg) =
     (if s \<notin> emailRegex then [\<lparr>code = invalid_string, path = p, message = msg\<rparr>] else [])"

fun checkNumber :: "string list \<Rightarrow> rat \<Rightarrow> zcheck_num \<Rightarrow> issue list" where
  "checkNumber p r (IsInt msg) =
     (if r \<noteq> of_int \<lfloor>r\<rfloor> then [\<lparr>code = invalid_type, path = p, message = msg\<rparr>] else [])"
| "checkNumber p r Positive =
     (if r \<le> 0 then [\<lparr>code = too_small, path = p,
                         message = ''Number must be greater than 0''\<rparr>] else [])"

text \<open>The issues one field raises; no issue means the value is accepted as it is.\<close>

fun fieldIssues :: "string set \<Rightarrow> string list \<Rightarrow> ztype \<Rightarrow> json option \<Rightarrow> issue list" where
  "fieldIssues emailRegex p (ZOptional t) v =
     (if v = None then [] else fieldIssues emailRegex p t v)"
| "fieldIssues emailRegex p (ZString cs) v =
     (case v of
        Some (JStr s) \<Rightarrow> concat (map (checkString emailRegex p s) cs)
      | _ \<Rightarrow> [invalidType p ''string'' v])"
| "fieldIssues emailRegex p (ZNumber cs) v =
     (case v of
        Some (JNum r) \<Rightarrow> concat (map (checkNumber p r) cs)
      | _ \<Rightarrow> [invalidType p ''number'' v])"

text \<open>
  \<open>schema.parse(body)\<close>: the issues of all keys of the schema, in the schema's
  order; with none, the body restricted to the schema's keys (unknown keys are
  stripped); otherwise the error carrying the issues is thrown (\<open>Inl\<close>).
\<close>

definition parse :: "string set \<Rightarrow> zobject \<Rightarrow> body \<Rightarrow> issue list + body" where
  "parse emailRegex schema b =
     (let issues = concat (map (\<lambda>(k, t). fieldIssues emailRegex [k] t (b k)) schema)
      in if issues = [] then Inr (b |` (fst ` set schema)) else Inl issues)"

subsection \<open>The schemas of the repository\<close>

text \<open>\<open>schemas/user.js\<close>.\<close>

definition createUserSchema :: zobject where
  "createUserSchema =
     [(''name'', ZString [Min 4 ''Name must be at least 4 characters'']),
      (''email'', ZString [Email ''Invalid email format'']),
      (''address'', ZOptional (ZString []))]"

text \<open>The schemas written inside the tutorial's \<open>server.js\<close>.\<close>

definition createUserSchema_server :: zobject where
  "createUserSchema_server =
     [(''name'', ZString [Min 3 ''Name must be at least 3 characters long'']),
      (''email'', ZString [Email ''Invalid email address''])]"

definition createPostSchema :: zobject where
  "createPostSchema =
     [(''title'', ZString [Min 3 ''Title must be at least 3 characters long'']),
      (''content'', ZString [Min 10 ''Content must be at least 10 characters long'']),
      (''userId'', ZNumber [IsInt ''User ID must be an integer'', Positive])]"

section \<open>The path parameter\<close>

text \<open>
  A JavaScript string is a sequence of UTF-16 code units. The path parameter is kept as
  the list of their values, each below 65536; \<open>js\<close> writes an ASCII literal as code
  units.
\<close>

type_synonym code_unit = nat

definition js :: "string \<Rightarrow> code_unit list" where
  "js s = map of_char s"

text \<open>
  A JavaScript number, as far as \<open>parseInt\<close> can return one: NaN, an infinity, or a
  finite double, whose value is then an integer. The two zeros are not told apart.
\<close>

datatype js_number = NaN | PosInfinity | NegInfinity | Finite int

text \<open>
  The double nearest to a natural number. Below \<open>2^53\<close> it is the number itself.
  From there on 53 significant bits are kept, the bits dropped rounding to nearest with
  ties to even; a result that reaches \<open>2^1024\<close> is an infinity. (The language also
  lets an engine replace the decimal digits after the 20th by zeros; the engine the
  server runs on rounds the digits as written.)
\<close>

fun bitLength :: "nat \<Rightarrow> nat" where
  "bitLength n = (if n = 0 then 0 else Suc (bitLength (n div 2)))"

declare bitLength.simps [simp del]

definition roundToDouble :: "nat \<Rightarrow> nat" where
  "roundToDouble n =
     (if n < 2 ^ 53 then n
      else (let e = bitLength n - 53; q = n div 2 ^ e; r = n mod 2 ^ e; h = 2 ^ (e - 1)
            in (if h < r \<or> (r = h \<and> odd q) then q + 1 else q) * 2 ^ e))"

definition toDouble :: "int \<Rightarrow> nat \<Rightarrow> js_number" where
  "toDouble sign m =
     (let d = roundToDouble m
      in if 2 ^ 1024 \<le> d then (if sign < 0 then NegInfinity else PosInfinity)
         else Finite (sign * int d))"

text \<open>
  White space is what the language skips when it trims a string: the code points
  \<open>WhiteSpace\<close> (tab, vertical tab, form feed, the byte order mark and the space
  separators of Unicode) and \<open>LineTerminator\<close>.
\<close>

definition isWhite :: "code_unit \<Rightarrow> bool" where
  "isWhite c =
     (c \<in> {0x09, 0x0B, 0x0C, 0xFEFF, 0x20, 0xA0, 0x1680, 0x202F, 0x205F, 0x3000}
      \<or> (0x2000 \<le> c \<and> c \<le> 0x200A)
      \<or> c \<in> {0x0A, 0x0D, 0x2028, 0x2029})"

definition digitVal :: "code_unit \<Rightarrow> nat option" where
  "digitVal c =
     (if 48 \<le> c \<and> c \<le> 57 then Some (c - 48)
      else if 97 \<le> c \<and> c \<le> 122 then Some (c - 87)
      else if 65 \<le> c \<and> c \<le> 90 then Some (c - 55)
      else None)"

definition isDigit :: "nat \<Rightarrow> code_unit \<Rightarrow> bool" where
  "isDigit R c = (case digitVal c of None \<Rightarrow> False | Some d \<Rightarrow> d < R)"

definition mathInt :: "nat \<Rightarrow> code_unit list \<Rightarrow> nat" where
  "mathInt R Z = foldl (\<lambda>a c. a * R + (case digitVal c of None \<Rightarrow> 0 | Some d \<Rightarrow> d)) 0 Z"

text \<open>
  \<open>parseInt(id)\<close> with no radix: leading white space is dropped, then an optional
  sign, then \<open>0x\<close> or \<open>0X\<close> selects radix 16 (radix 10 otherwise), and the
  longest prefix of digits of that radix is read. With no digit the result is NaN;
  otherwise it is the double nearest to the signed value of the digits.
\<close>

definition parseInt :: "code_unit list \<Rightarrow> js_number" where
  "parseInt s =
     (let S = dropWhile isWhite s;
          sign = (if S \<noteq> [] \<and> hd S = of_char CHR ''-'' then - 1 else 1 :: int);
          S = (if S \<noteq> [] \<and> (hd S = of_char CHR ''+'' \<or> hd S = of_char CHR ''-'')
               then tl S else S);
          hex = (take 2 S = js ''0x'' \<or> take 2 S = js ''0X'');
          R = (if hex then 16 else 10);
          S = (if hex then drop 2 S else S);
          Z = takeWhile (isDigit R) S
      in if Z = [] then NaN else toDouble sign (mathInt R Z))"

section \<open>The relational store\<close>

text \<open>
  The tables are those of the Prisma schema: \<open>User\<close> with \<open>id\<close>
  (\<open>@id @default(autoincrement())\<close>), \<open>name\<close> and \<open>email\<close> (\<open>@unique\<close>);
  \<open>Post\<close> with \<open>id\<close>, \<open>title\<close>, \<open>content\<close>, \<open>createdAt\<close>
  (\<open>@default(now())\<close>) and, in the schema the post routes are written for, \<open>userId\<close>
  referencing \<open>User.id\<close>. Each table is the list of its rows together with the next
  value of its id sequence. Ids in the tables are integers; the 32-bit range of the
  column is not modelled. The tutorial's variant of \<open>User\<close> has a further column
  \<open>createdAt\<close>, filled in by the store, which is left out here.
\<close>

record user =
  u_id :: int
  u_name :: string
  u_email :: string

record post =
  p_id :: int
  p_title :: string
  p_content :: string
  p_createdAt :: int
  p_userId :: int

record db =
  users :: "user list"
  user_seq :: int
  posts :: "post list"
  post_seq :: int

definition init_db :: db where
  "init_db = \<lparr>users = [], user_seq = 1, posts = [], post_seq = 1\<rparr>"

text \<open>
  The ORM client and the database behind it are not code of the repository; each call
  the handlers make is written out as what it does to the tables under the schema's
  constraints.
  What a call of the ORM client can throw: a rejected argument (a required field that is
  \<open>undefined\<close>, a value of the wrong type, an id that is NaN or an infinity), a unique
  constraint (P2002), a foreign key constraint (P2003), a record that an update or delete needs and
  does not find (P2025).
\<close>

datatype prisma_error = PrismaClientValidationError | P2002 | P2003 | P2025

text \<open>
  A call returns the store after it and either the error thrown or the result. An insert
  takes its id from the sequence before the constraints are checked, so a rejected
  insert still uses up one id.
\<close>

definition user_findUnique :: "db \<Rightarrow> js_number \<Rightarrow> prisma_error + user option" where
  "user_findUnique st i =
     (case i of
        Finite n \<Rightarrow> Inr (find (\<lambda>u. u_id u = n) (users st))
      | _ \<Rightarrow> Inl PrismaClientValidationError)"

definition user_findMany :: "db \<Rightarrow> user list" where
  "user_findMany st = users st"

definition user_create :: "db \<Rightarrow> json option \<Rightarrow> json option \<Rightarrow> db \<times> (prisma_error + user)" where
  "user_create st name email =
     (case (name, email) of
        (Some (JStr n), Some (JStr e)) \<Rightarrow>
          (let i = user_seq st; st' = st\<lparr>user_seq := i + 1\<rparr> in
           if e \<in> u_email ` set (users st) then (st', Inl P2002)
           else (let u = \<lparr>u_id = i, u_name = n, u_email = e\<rparr>
                 in (st'\<lparr>users := users st @ [u]\<rparr>, Inr u)))
      | _ \<Rightarrow> (st, Inl PrismaClientValidationError))"

text \<open>
  In \<open>data\<close> of an update, a field that is \<open>undefined\<close> is left as it is; a
  string field takes a string, the integer field \<open>userId\<close> an integral number.
\<close>

definition strArg :: "json option \<Rightarrow> bool" where
  "strArg v = (case v of None \<Rightarrow> True | Some (JStr _) \<Rightarrow> True | _ \<Rightarrow> False)"

definition newStr :: "json option \<Rightarrow> string \<Rightarrow> string" where
  "newStr v old = (case v of Some (JStr s) \<Rightarrow> s | _ \<Rightarrow> old)"

definition intArg :: "json option \<Rightarrow> bool" where
  "intArg v = (case v of None \<Rightarrow> True | Some (JNum r) \<Rightarrow> r = of_int \<lfloor>r\<rfloor> | _ \<Rightarrow> False)"

definition newInt :: "json option \<Rightarrow> int \<Rightarrow> int" where
  "newInt v old = (case v of Some (JNum r) \<Rightarrow> \<lfloor>r\<rfloor> | _ \<Rightarrow> old)"

definition user_update ::
  "db \<Rightarrow> js_number \<Rightarrow> json option \<Rightarrow> json option \<Rightarrow> db \<times> (prisma_error + user)" where
  "user_update st i name email =
     (case i of
        Finite n \<Rightarrow>
          if \<not> (strArg name \<and> strArg email) then (st, Inl PrismaClientValidationError)
          else
            (case find (\<lambda>u. u_id u = n) (users st) of
               None \<Rightarrow> (st, Inl P2025)
             | Some u \<Rightarrow>
                 (let u' = u\<lparr>u_name := newStr name (u_name u), u_email := newStr email (u_email u)\<rparr>
                  in if u_email u' \<in> u_email ` set (filter (\<lambda>w. u_id w \<noteq> n) (users st))
                     then (st, Inl P2002)
                     else (st\<lparr>users := map (\<lambda>w. if u_id w = n then u' else w) (users st)\<rparr>,
                           Inr u')))
      | _ \<Rightarrow> (st, Inl PrismaClientValidationError))"

text \<open>
  The relation from \<open>Post\<close> to \<open>User\<close> names no referential action, so a user that
  still owns posts cannot be deleted (P2003).
\<close>

definition user_delete :: "db \<Rightarrow> js_number \<Rightarrow> db \<times> (prisma_error + unit)" where
  "user_delete st i =
     (case i of
        Finite n \<Rightarrow>
          (case find (\<lambda>u. u_id u = n) (users st) of
             None \<Rightarrow> (st, Inl P2025)
           | Some u \<Rightarrow>
               if n \<in> p_userId ` set (posts st) then (st, Inl P2003)
               else (st\<lparr>users := filter (\<lambda>w. u_id w \<noteq> n) (users st)\<rparr>, Inr ()))
      | _ \<Rightarrow> (st, Inl PrismaClientValidationError))"

definition post_create ::
  "int \<Rightarrow> db \<Rightarrow> json option \<Rightarrow> json option \<Rightarrow> json option \<Rightarrow> db \<times> (prisma_error + post)" where
  "post_create now st title content userId =
     (case (title, content, userId) of
        (Some (JStr t), Some (JStr c), Some (JNum r)) \<Rightarrow>
          if r \<noteq> of_int \<lfloor>r\<rfloor> then (st, Inl PrismaClientValidationError)
          else
            (let i = post_seq st; st' = st\<lparr>post_seq := i + 1\<rparr> in
             if \<lfloor>r\<rfloor> \<notin> u_id ` set (users st) then (st', Inl P2003)
             else (let p = \<lparr>p_id = i, p_title = t, p_content = c, p_createdAt = now,
                              p_userId = \<lfloor>r\<rfloor>\<rparr>
                   in (st'\<lparr>posts := posts st @ [p]\<rparr>, Inr p)))
      | _ \<Rightarrow> (st, Inl PrismaClientValidationError))"

definition post_findMany :: "db \<Rightarrow> (post \<times> user option) list" where
  "post_findMany st = map (\<lambda>p. (p, find (\<lambda>u. u_id u = p_userId p) (users st))) (posts st)"

definition post_findUnique :: "db \<Rightarrow> js_number \<Rightarrow> prisma_error + (post \<times> user option) option" where
  "post_findUnique st i =
     (case i of
        Finite n \<Rightarrow>
          Inr (map_option (\<lambda>p. (p, find (\<lambda>u. u_id u = p_userId p) (users st)))
                 (find (\<lambda>p. p_id p = n) (posts st)))
      | _ \<Rightarrow> Inl PrismaClientValidationError)"

definition post_update ::
  "db \<Rightarrow> js_number \<Rightarrow> json option \<Rightarrow> json option \<Rightarrow> json option \<Rightarrow> db \<times> (prisma_error + post)" where
  "post_update st i title content userId =
     (case i of
        Finite n \<Rightarrow>
          if \<not> (strArg title \<and> strArg content \<and> intArg userId)
          then (st, Inl PrismaClientValidationError)
          else
            (case find (\<lambda>p. p_id p = n) (posts st) of
               None \<Rightarrow> (st, Inl P2025)
             | Some p \<Rightarrow>
                 (let p' = p\<lparr>p_title := newStr title (p_title p),
                              p_content := newStr content (p_content p),
                              p_userId := newInt userId (p_userId p)\<rparr>
                  in if p_userId p' \<notin> u_id ` set (users st) then (st, Inl P2003)
                     else (st\<lparr>posts := map (\<lambda>q. if p_id q = n then p' else q) (posts st)\<rparr>,
                           Inr p')))
      | _ \<Rightarrow> (st, Inl PrismaClientValidationError))"

definition post_delete :: "db \<Rightarrow> js_number \<Rightarrow> db \<times> (prisma_error + unit)" where
  "post_delete st i =
     (case i of
        Finite n \<Rightarrow>
          (case find (\<lambda>p. p_id p = n) (posts st) of
             None \<Rightarrow> (st, Inl P2025)
           | Some p \<Rightarrow> (st\<lparr>posts := filter (\<lambda>q. p_id q \<noteq> n) (posts st)\<rparr>, Inr ()))
      | _ \<Rightarrow> (st, Inl PrismaClientValidationError))"

section \<open>The route handlers\<close>

text \<open>
  A handler takes the store and the request and returns the store and the response. A
  reply sent without a status has status 200. An error thrown out of a handler reaches
  the framework's default error handler, which replies with status 500; an error sent
  by the handler's own \<open>catch\<close> after \<open>reply.status(400)\<close> keeps status 400.
\<close>

datatype payload =
    UserBody user
  | UsersBody "user list"
  | PostBody post
  | PostUserBody post "user option"
  | PostsBody "(post \<times> user option) list"
  | Issues "issue list"
  | Error prisma_error
  | Message string
  | Created string user
  | Empty

record response =
  status :: nat
  payload :: payload

subsection \<open>\<open>server.js\<close>: users\<close>

text \<open>
  \<open>POST /users\<close>. The handler reads the schema bound to \<open>createUserSchema\<close> in its
  module, which is the second argument here; in \<open>server.js\<close> that is
  \<open>createUserSchema_server\<close>.
\<close>

definition post_users :: "string set \<Rightarrow> zobject \<Rightarrow> db \<Rightarrow> body \<Rightarrow> db \<times> response" where
  "post_users emailRegex schema st b =
     (case parse emailRegex schema b of
        Inl errors \<Rightarrow> (st, \<lparr>status = 400, payload = Issues errors\<rparr>)
      | Inr parsed \<Rightarrow>
          (case user_create st (parsed ''name'') (parsed ''email'') of
             (st', Inl error) \<Rightarrow> (st', \<lparr>status = 400, payload = Error error\<rparr>)
           | (st', Inr u) \<Rightarrow> (st', \<lparr>status = 201, payload = UserBody u\<rparr>)))"

text \<open>
  \<open>GET /users\<close> and \<open>GET /users/:id\<close>. The later version of \<open>server.js\<close>
  reads each user together with its posts (\<open>include: { posts: true }\<close>); the
  branches and the status codes are the same.
\<close>

definition get_users :: "db \<Rightarrow> db \<times> response" where
  "get_users st = (st, \<lparr>status = 200, payload = UsersBody (user_findMany st)\<rparr>)"

definition get_users_id :: "db \<Rightarrow> code_unit list \<Rightarrow> db \<times> response" where
  "get_users_id st ident =
     (case user_findUnique st (parseInt ident) of
        Inl error \<Rightarrow> (st, \<lparr>status = 500, payload = Error error\<rparr>)
      | Inr (Some u) \<Rightarrow> (st, \<lparr>status = 200, payload = UserBody u\<rparr>)
      | Inr None \<Rightarrow> (st, \<lparr>status = 404, payload = Message ''User not found''\<rparr>))"

text \<open>\<open>PUT /users/:id\<close>.\<close>

definition put_users_id :: "db \<Rightarrow> code_unit list \<Rightarrow> body \<Rightarrow> db \<times> response" where
  "put_users_id st ident b =
     (case user_update st (parseInt ident) (b ''name'') (b ''email'') of
        (st', Inl error) \<Rightarrow> (st', \<lparr>status = 500, payload = Error error\<rparr>)
      | (st', Inr u) \<Rightarrow> (st', \<lparr>status = 200, payload = UserBody u\<rparr>))"

text \<open>\<open>DELETE /users/:id\<close>.\<close>

definition delete_users_id :: "db \<Rightarrow> code_unit list \<Rightarrow> db \<times> response" where
  "delete_users_id st ident =
     (case user_delete st (parseInt ident) of
        (st', Inl error) \<Rightarrow> (st', \<lparr>status = 500, payload = Error error\<rparr>)
      | (st', Inr _) \<Rightarrow> (st', \<lparr>status = 204, payload = Empty\<rparr>))"

subsection \<open>\<open>server.js\<close>: posts\<close>

text \<open>\<open>POST /posts\<close>; \<open>now\<close> is the time the row is inserted.\<close>

definition post_posts :: "string set \<Rightarrow> int \<Rightarrow> db \<Rightarrow> body \<Rightarrow> db \<times> response" where
  "post_posts emailRegex now st b =
     (case parse emailRegex createPostSchema b of
        Inl errors \<Rightarrow> (st, \<lparr>status = 400, payload = Issues errors\<rparr>)
      | Inr parsed \<Rightarrow>
          (case post_create now st (parsed ''title'') (parsed ''content'') (parsed ''userId'') of
             (st', Inl error) \<Rightarrow> (st', \<lparr>status = 400, payload = Error error\<rparr>)
           | (st', Inr p) \<Rightarrow> (st', \<lparr>status = 201, payload = PostBody p\<rparr>)))"

text \<open>\<open>GET /posts\<close> and \<open>GET /posts/:id\<close>, each post with its user.\<close>

definition get_posts :: "db \<Rightarrow> db \<times> response" where
  "get_posts st = (st, \<lparr>status = 200, payload = PostsBody (post_findMany st)\<rparr>)"

definition get_posts_id :: "db \<Rightarrow> code_unit list \<Rightarrow> db \<times> response" where
  "get_posts_id st ident =
     (case post_findUnique st (parseInt ident) of
        Inl error \<Rightarrow> (st, \<lparr>status = 500, payload = Error error\<rparr>)
      | Inr (Some (p, u)) \<Rightarrow> (st, \<lparr>status = 200, payload = PostUserBody p u\<rparr>)
      | Inr None \<Rightarrow> (st, \<lparr>status = 404, payload = Message ''Post not found''\<rparr>))"

text \<open>\<open>PUT /posts/:id\<close> and \<open>DELETE /posts/:id\<close>.\<close>

definition put_posts_id :: "db \<Rightarrow> code_unit list \<Rightarrow> body \<Rightarrow> db \<times> response" where
  "put_posts_id st ident b =
     (case post_update st (parseInt ident) (b ''title'') (b ''content'') (b ''userId'') of
        (st', Inl error) \<Rightarrow> (st', \<lparr>status = 500, payload = Error error\<rparr>)
      | (st', Inr p) \<Rightarrow> (st', \<lparr>status = 200, payload = PostBody p\<rparr>))"

definition delete_posts_id :: "db \<Rightarrow> code_unit list \<Rightarrow> db \<times> response" where
  "delete_posts_id st ident =
     (case post_delete st (parseInt ident) of
        (st', Inl error) \<Rightarrow> (st', \<lparr>status = 500, payload = Error error\<rparr>)
      | (st', Inr _) \<Rightarrow> (st', \<lparr>status = 204, payload = Empty\<rparr>))"

subsection \<open>\<open>app.js\<close>\<close>

text \<open>
  \<open>POST /user\<close>: the body's \<open>name\<close> and \<open>email\<close> go to the store as they are; the
  imported \<open>createUserSchema\<close> is not used. The handler returns its answer, so the
  status is 200.
\<close>

definition post_user :: "db \<Rightarrow> body \<Rightarrow> db \<times> response" where
  "post_user st b =
     (case user_create st (b ''name'') (b ''email'') of
        (st', Inl error) \<Rightarrow> (st', \<lparr>status = 500, payload = Error error\<rparr>)
      | (st', Inr newUser) \<Rightarrow>
          (st', \<lparr>status = 200, payload = Created ''User created successfully'' newUser\<rparr>))"

subsection \<open>Requests\<close>

datatype request =
    POST_users body
  | GET_users
  | GET_users_id "code_unit list"
  | PUT_users_id "code_unit list" body
  | DELETE_users_id "code_unit list"
  | POST_posts int body
  | GET_posts
  | GET_posts_id "code_unit list"
  | PUT_posts_id "code_unit list" body
  | DELETE_posts_id "code_unit list"
  | POST_user body

fun handle :: "string set \<Rightarrow> zobject \<Rightarrow> db \<Rightarrow> request \<Rightarrow> db \<times> response" where
  "handle emailRegex schema st (POST_users b) = post_users emailRegex schema st b"
| "handle emailRegex schema st GET_users = get_users st"
| "handle emailRegex schema st (GET_users_id i) = get_users_id st i"
| "handle emailRegex schema st (PUT_users_id i b) = put_users_id st i b"
| "handle emailRegex schema st (DELETE_users_id i) = delete_users_id st i"
| "handle emailRegex schema st (POST_posts now b) = post_posts emailRegex now st b"
| "handle emailRegex schema st GET_posts = get_posts st"
| "handle emailRegex schema st (GET_posts_id i) = get_posts_id st i"
| "handle emailRegex schema st (PUT_posts_id i b) = put_posts_id st i b"
| "handle emailRegex schema st (DELETE_posts_id i) = delete_posts_id st i"
| "handle emailRegex schema st (POST_user b) = post_user st b"

text \<open>The stores that requests can lead to from the empty one.\<close>

inductive reachable :: "string set \<Rightarrow> zobject \<Rightarrow> db \<Rightarrow> bool"
  for emailRegex :: "string set" and schema :: zobject where
  start: "reachable emailRegex schema init_db"
| step: "reachable emailRegex schema st \<Longrightarrow>
         reachable emailRegex schema (fst (handle emailRegex schema st rq))"

text \<open>
  A user as the reply carries it: \<open>reply.send(user)\<close> writes the row as a JSON
  object.
\<close>

definition user_json :: "user \<Rightarrow> body" where
  "user_json u =
     [''id'' \<mapsto> JNum (of_int (u_id u)), ''name'' \<mapsto> JStr (u_name u),
      ''email'' \<mapsto> JStr (u_email u)]"

text \<open>
  What the schema's \<open>@id\<close>, \<open>autoincrement()\<close> and \<open>@unique\<close> maintain on the
  user table: ids are distinct and below the next value of the sequence, emails are
  distinct.
\<close>

definition store_ok :: "db \<Rightarrow> bool" where
  "store_ok st =
     (distinct (map u_id (users st)) \<and> list_all (\<lambda>u. u_id u < user_seq st) (users st)
      \<and> distinct (map u_email (users st)))"

section \<open>Numbers that a double holds exactly\<close>

lemma toDouble_small: "m < 2 ^ 53 \<Longrightarrow> toDouble sign m = Finite (sign * int m)"
proof -
  assume m: "m < 2 ^ 53"
  have "(2::nat) ^ 53 \<le> 2 ^ 1024" by (rule power_increasing) simp_all
  with m have "\<not> 2 ^ 1024 \<le> m" by simp
  with m show ?thesis by (simp add: toDouble_def roundToDouble_def)
qed

lemma parseInt_1: "parseInt (js ''1'') = Finite 1"
  by (simp add: parseInt_def js_def isWhite_def isDigit_def digitVal_def mathInt_def
      toDouble_small)

section \<open>The store's constraints hold in every reachable store\<close>

lemma store_ok_init: "store_ok init_db"
  by (simp add: store_ok_def init_db_def)

lemma find_id: "find (\<lambda>u. u_id u = n) xs = Some u \<Longrightarrow> u_id u = n \<and> u \<in> set xs"
  by (induction xs) (auto split: if_splits)

lemma replace_ids:
  "u_id u' = n \<Longrightarrow> map u_id (map (\<lambda>w. if u_id w = n then u' else w) xs) = map u_id xs"
  by (induction xs) auto

lemma replace_absent:
  "n \<notin> u_id ` set xs \<Longrightarrow> map (\<lambda>w. if u_id w = n then u' else w) xs = xs"
  by (induction xs) auto

lemma replace_emails:
  "distinct (map u_id xs) \<Longrightarrow> distinct (map u_email xs) \<Longrightarrow>
   u_email u' \<notin> u_email ` set (filter (\<lambda>w. u_id w \<noteq> n) xs) \<Longrightarrow>
   distinct (map u_email (map (\<lambda>w. if u_id w = n then u' else w) xs))"
proof (induction xs)
  case Nil
  then show ?case by simp
next
  case (Cons x xs)
  show ?case
  proof (cases "u_id x = n")
    case True
    with Cons.prems have "n \<notin> u_id ` set xs" by auto
    then have same: "map (\<lambda>w. if u_id w = n then u' else w) xs = xs"
      and all: "filter (\<lambda>w. u_id w \<noteq> n) xs = xs"
      by (auto simp: replace_absent filter_id_conv)
    from Cons.prems True all show ?thesis by (simp add: same)
  next
    case False
    have "u_email x \<notin> u_email ` set (map (\<lambda>w. if u_id w = n then u' else w) xs)"
      using Cons.prems False by auto
    with Cons False show ?thesis by auto
  qed
qed

lemma user_create_ok: "store_ok st \<Longrightarrow> store_ok (fst (user_create st a b))"
  by (auto simp: user_create_def store_ok_def Let_def list_all_iff
      split: option.splits json.splits)

lemma user_update_cases:
  "fst (user_update st i a b) = st \<or>
   (\<exists>n u'. u_id u' = n \<and> u_email u' \<notin> u_email ` set (filter (\<lambda>w. u_id w \<noteq> n) (users st)) \<and>
      fst (user_update st i a b) =
        st\<lparr>users := map (\<lambda>w. if u_id w = n then u' else w) (users st)\<rparr>)"
proof (cases i)
  case i: (Finite n)
  show ?thesis
  proof (cases "find (\<lambda>u. u_id u = n) (users st)")
    case None
    with i show ?thesis by (simp add: user_update_def)
  next
    case (Some u)
    let ?u' = "u\<lparr>u_name := newStr a (u_name u), u_email := newStr b (u_email u)\<rparr>"
    have "u_id ?u' = n" using find_id [OF Some] by simp
    then have "fst (user_update st i a b) = st \<or>
      (u_id ?u' = n \<and> u_email ?u' \<notin> u_email ` set (filter (\<lambda>w. u_id w \<noteq> n) (users st)) \<and>
       fst (user_update st i a b) =
         st\<lparr>users := map (\<lambda>w. if u_id w = n then ?u' else w) (users st)\<rparr>)"
      using i Some by (simp add: user_update_def Let_def)
    then show ?thesis by blast
  qed
qed (simp_all add: user_update_def)

lemma user_update_ok:
  assumes "store_ok st"
  shows "store_ok (fst (user_update st i a b))"
proof -
  consider "fst (user_update st i a b) = st"
    | n u' where "u_id u' = n"
        "u_email u' \<notin> u_email ` set (filter (\<lambda>w. u_id w \<noteq> n) (users st))"
        "fst (user_update st i a b) =
           st\<lparr>users := map (\<lambda>w. if u_id w = n then u' else w) (users st)\<rparr>"
    using user_update_cases [of st i a b] by blast
  then show ?thesis
  proof cases
    case 1
    with assms show ?thesis by simp
  next
    case 2
    let ?f = "\<lambda>w. if u_id w = n then u' else w"
    have ids: "map u_id (map ?f (users st)) = map u_id (users st)"
      using 2(1) by (rule replace_ids)
    have emails: "distinct (map u_email (map ?f (users st)))"
      using assms 2(2) by (intro replace_emails) (simp_all add: store_ok_def)
    have bound: "list_all (\<lambda>u. u_id u < user_seq st) (map ?f (users st))"
      using assms ids unfolding store_ok_def list_all_iff
      by (metis (no_types, lifting) image_iff list.set_map)
    show ?thesis
      unfolding store_ok_def 2(3) using assms ids emails bound
      by (simp add: store_ok_def del: map_map)
  qed
qed

lemma user_delete_ok: "store_ok st \<Longrightarrow> store_ok (fst (user_delete st i))"
  by (auto simp: user_delete_def store_ok_def list_all_iff distinct_map_filter
      split: option.splits js_number.splits)

lemma post_create_users: "users (fst (post_create now st a b c)) = users st"
  "user_seq (fst (post_create now st a b c)) = user_seq st"
  by (auto simp: post_create_def Let_def split: option.splits json.splits)

lemma post_update_users: "users (fst (post_update st i a b c)) = users st"
  "user_seq (fst (post_update st i a b c)) = user_seq st"
  by (auto simp: post_update_def Let_def split: option.splits js_number.splits)

lemma post_delete_users: "users (fst (post_delete st i)) = users st"
  "user_seq (fst (post_delete st i)) = user_seq st"
  by (auto simp: post_delete_def split: option.splits js_number.splits)

lemma handle_ok: "store_ok st \<Longrightarrow> store_ok (fst (handle emailRegex schema st rq))"
proof (cases rq)
  case (POST_users b)
  assume "store_ok st"
  then show ?thesis using user_create_ok [of st]
    by (auto simp: POST_users post_users_def split: sum.splits prod.splits) (metis fst_conv)+
next
  case (PUT_users_id i b)
  assume "store_ok st"
  then show ?thesis using user_update_ok [of st "parseInt i" "b ''name''" "b ''email''"]
    by (auto simp: PUT_users_id put_users_id_def split: sum.splits prod.splits)
next
  case (DELETE_users_id i)
  assume "store_ok st"
  then show ?thesis using user_delete_ok [of st "parseInt i"]
    by (auto simp: DELETE_users_id delete_users_id_def split: sum.splits prod.splits)
next
  case (POST_posts now b)
  assume "store_ok st"
  then show ?thesis
    using post_create_users [of now st]
    by (auto simp: POST_posts post_posts_def store_ok_def split: sum.splits prod.splits) (metis fst_conv)+
next
  case (PUT_posts_id i b)
  assume "store_ok st"
  then show ?thesis
    using post_update_users [of st "parseInt i" "b ''title''" "b ''content''" "b ''userId''"]
    by (auto simp: PUT_posts_id put_posts_id_def store_ok_def split: sum.splits prod.splits)
next
  case (DELETE_posts_id i)
  assume "store_ok st"
  then show ?thesis
    using post_delete_users [of st "parseInt i"]
    by (auto simp: DELETE_posts_id delete_posts_id_def store_ok_def split: sum.splits prod.splits)
next
  case (POST_user b)
  assume "store_ok st"
  then show ?thesis using user_create_ok [of st "b ''name''" "b ''email''"]
    by (auto simp: POST_user post_user_def split: sum.splits prod.splits)
qed (auto simp: get_users_def get_users_id_def get_posts_def get_posts_id_def split: sum.splits option.splits js_number.splits)

lemma reachable_ok: "reachable emailRegex schema st \<Longrightarrow> store_ok st"
  by (induction rule: reachable.induct) (auto simp: store_ok_init handle_ok)

section \<open>Creating a user: the two examples\<close>




text \<open>
  The bound 4 and the message about 4 characters are those of \<open>schemas/user.js\<close>,
  which \<open>app.js\<close> imports and no route parses with.
\<close>

lemma schema_file_bound:
  "parse emailRegex createUserSchema [''name'' \<mapsto> JStr ''Jo''] =
     Inl [\<lparr>code = too_small, path = [''name''],
           message = ''Name must be at least 4 characters''\<rparr>,
          \<lparr>code = invalid_type, path = [''email''], message = ''Required''\<rparr>]"
  by (simp add: parse_def createUserSchema_def invalidType_def)

section \<open>Emails are unique\<close>

text \<open>A store to try the properties on: the empty store after John Doe has been created.\<close>

lemma post_users_john:
  "post_users {''john@example.com''} createUserSchema_server init_db
     [''name'' \<mapsto> JStr ''John Doe'', ''email'' \<mapsto> JStr ''john@example.com''] =
   (\<lparr>users = [\<lparr>u_id = 1, u_name = ''John Doe'', u_email = ''john@example.com''\<rparr>],
     user_seq = 2, posts = [], post_seq = 1\<rparr>,
    \<lparr>status = 201,
     payload = UserBody \<lparr>u_id = 1, u_name = ''John Doe'', u_email = ''john@example.com''\<rparr>\<rparr>)"
  by (simp add: post_users_def parse_def createUserSchema_server_def user_create_def init_db_def
      restrict_map_def Let_def)

lemma reachable_john:
  "reachable {''john@example.com''} createUserSchema_server
     \<lparr>users = [\<lparr>u_id = 1, u_name = ''John Doe'', u_email = ''john@example.com''\<rparr>],
      user_seq = 2, posts = [], post_seq = 1\<rparr>"
  using reachable.step [OF reachable.start, of "{''john@example.com''}" createUserSchema_server
      "POST_users [''name'' \<mapsto> JStr ''John Doe'', ''email'' \<mapsto> JStr ''john@example.com'']"]
  by (simp add: post_users_john)

text \<open>
  C8. In every store that requests can lead to, no two stored users have the same email,
  and whatever request comes next, this still holds afterwards: the store refuses a
  create or an update that would give a second user an email already taken (P2002), and
  a delete only removes a row.
\<close>

theorem email_unique:
  "reachable emailRegex schema st \<Longrightarrow>
     distinct (map u_email (users st)) \<and>
     distinct (map u_email (users (fst (handle emailRegex schema st rq))))"
  using reachable_ok [of emailRegex schema st]
    reachable_ok [OF reachable.step, of emailRegex schema st rq]
  by (simp add: store_ok_def)

text \<open>A second user asking for John Doe's email is refused, and the table stays as it was.\<close>

theorem email_unique_witness:
  "reachable {''john@example.com''} createUserSchema_server
     \<lparr>users = [\<lparr>u_id = 1, u_name = ''John Doe'', u_email = ''john@example.com''\<rparr>],
      user_seq = 2, posts = [], post_seq = 1\<rparr>
   \<and> distinct (map u_email (users (fst (handle {''john@example.com''} createUserSchema_server
       \<lparr>users = [\<lparr>u_id = 1, u_name = ''John Doe'', u_email = ''john@example.com''\<rparr>],
        user_seq = 2, posts = [], post_seq = 1\<rparr>
       (POST_users [''name'' \<mapsto> JStr ''Johnny'', ''email'' \<mapsto> JStr ''john@example.com''])))))
   \<and> users (fst (handle {''john@example.com''} createUserSchema_server
       \<lparr>users = [\<lparr>u_id = 1, u_name = ''John Doe'', u_email = ''john@example.com''\<rparr>],
        user_seq = 2, posts = [], post_seq = 1\<rparr>
       (POST_users [''name'' \<mapsto> JStr ''Johnny'', ''email'' \<mapsto> JStr ''john@example.com'']))) =
       [\<lparr>u_id = 1, u_name = ''John Doe'', u_email = ''john@example.com''\<rparr>]"
  using reachable_john
    email_unique [OF reachable_john,
      of "POST_users [''name'' \<mapsto> JStr ''Johnny'', ''email'' \<mapsto> JStr ''john@example.com'']"]
  by (simp add: post_users_def parse_def createUserSchema_server_def user_create_def
      restrict_map_def Let_def)

section \<open>Deleting, and updating with an empty patch\<close>

lemma find_filter_out: "find (\<lambda>u. u_id u = n) (filter (\<lambda>w. u_id w \<noteq> n) xs) = None"
  by (simp add: find_None_iff)

text \<open>
  C5. When \<open>DELETE /users/:id\<close> succeeds (status 204), \<open>GET /users/:id\<close> with the
  same path parameter replies 404 with the message \<open>User not found\<close>.
\<close>

theorem delete_then_getById:
  "delete_users_id st ident = (st', r) \<Longrightarrow> status r = 204 \<Longrightarrow>
   get_users_id st' ident = (st', \<lparr>status = 404, payload = Message ''User not found''\<rparr>)"
  by (auto simp: delete_users_id_def user_delete_def get_users_id_def user_findUnique_def
      find_filter_out split: option.splits js_number.splits if_splits)

theorem delete_then_getById_witness:
  "delete_users_id
     \<lparr>users = [\<lparr>u_id = 1, u_name = ''John Doe'', u_email = ''john@example.com''\<rparr>],
      user_seq = 2, posts = [], post_seq = 1\<rparr> (js ''1'') =
     (\<lparr>users = [], user_seq = 2, posts = [], post_seq = 1\<rparr>, \<lparr>status = 204, payload = Empty\<rparr>)
   \<and> status \<lparr>status = 204, payload = Empty\<rparr> = 204
   \<and> get_users_id \<lparr>users = [], user_seq = 2, posts = [], post_seq = 1\<rparr> (js ''1'') =
     (\<lparr>users = [], user_seq = 2, posts = [], post_seq = 1\<rparr>,
      \<lparr>status = 404, payload = Message ''User not found''\<rparr>)"
proof -
  have d: "delete_users_id
     \<lparr>users = [\<lparr>u_id = 1, u_name = ''John Doe'', u_email = ''john@example.com''\<rparr>],
      user_seq = 2, posts = [], post_seq = 1\<rparr> (js ''1'') =
     (\<lparr>users = [], user_seq = 2, posts = [], post_seq = 1\<rparr>, \<lparr>status = 204, payload = Empty\<rparr>)"
    by (simp add: delete_users_id_def user_delete_def parseInt_1)
  show ?thesis using d delete_then_getById [OF d] by simp
qed

lemma replace_same:
  "find (\<lambda>u. u_id u = n) xs = Some u \<Longrightarrow> distinct (map u_id xs) \<Longrightarrow>
   map (\<lambda>w. if u_id w = n then u else w) xs = xs"
proof (induction xs)
  case Nil
  then show ?case by simp
next
  case (Cons x xs)
  show ?case
  proof (cases "u_id x = n")
    case True
    with Cons.prems have "n \<notin> u_id ` set xs" "x = u" by auto
    then show ?thesis using True by (simp add: replace_absent)
  next
    case False
    with Cons show ?thesis by simp
  qed
qed

lemma own_email:
  "find (\<lambda>u. u_id u = n) xs = Some u \<Longrightarrow> distinct (map u_email xs) \<Longrightarrow>
   u_email u \<notin> u_email ` set (filter (\<lambda>w. u_id w \<noteq> n) xs)"
proof -
  assume f: "find (\<lambda>u. u_id u = n) xs = Some u" and d: "distinct (map u_email xs)"
  from f have u: "u_id u = n" "u \<in> set xs" using find_id by auto
  show ?thesis
  proof
    assume "u_email u \<in> u_email ` set (filter (\<lambda>w. u_id w \<noteq> n) xs)"
    then obtain w where w: "w \<in> set xs" "u_id w \<noteq> n" "u_email w = u_email u" by auto
    with u d have "w = u" by (meson distinct_map inj_onD)
    with w u show False by simp
  qed
qed

text \<open>
  C6. In a reachable store, \<open>PUT /users/:id\<close> with the empty body \<open>{}\<close> leaves the
  whole store as it was, the addressed user included, and replies 200 with that user.
\<close>

theorem update_empty_patch:
  "reachable emailRegex schema st \<Longrightarrow> parseInt ident = Finite n \<Longrightarrow>
   find (\<lambda>u. u_id u = n) (users st) = Some u \<Longrightarrow>
   put_users_id st ident Map.empty = (st, \<lparr>status = 200, payload = UserBody u\<rparr>)"
proof -
  assume r: "reachable emailRegex schema st" and p: "parseInt ident = Finite n"
    and f: "find (\<lambda>u. u_id u = n) (users st) = Some u"
  from r have ok: "store_ok st" by (rule reachable_ok)
  then have same: "map (\<lambda>w. if u_id w = n then u else w) (users st) = users st"
    using f by (simp add: replace_same store_ok_def)
  from ok have "distinct (map u_email (users st))" by (simp add: store_ok_def)
  with f have free: "u_email u \<notin> u_email ` set (filter (\<lambda>w. u_id w \<noteq> n) (users st))"
    by (rule own_email)
  show ?thesis
    using p f free same
    by (simp add: put_users_id_def user_update_def strArg_def newStr_def)
qed

theorem update_empty_patch_witness:
  "reachable {''john@example.com''} createUserSchema_server
     \<lparr>users = [\<lparr>u_id = 1, u_name = ''John Doe'', u_email = ''john@example.com''\<rparr>],
      user_seq = 2, posts = [], post_seq = 1\<rparr>
   \<and> parseInt (js ''1'') = Finite 1
   \<and> find (\<lambda>u. u_id u = 1)
        (users \<lparr>users = [\<lparr>u_id = 1, u_name = ''John Doe'', u_email = ''john@example.com''\<rparr>],
                user_seq = 2, posts = [], post_seq = 1\<rparr>) =
       Some \<lparr>u_id = 1, u_name = ''John Doe'', u_email = ''john@example.com''\<rparr>
   \<and> put_users_id
        \<lparr>users = [\<lparr>u_id = 1, u_name = ''John Doe'', u_email = ''john@example.com''\<rparr>],
         user_seq = 2, posts = [], post_seq = 1\<rparr> (js ''1'') Map.empty =
       (\<lparr>users = [\<lparr>u_id = 1, u_name = ''John Doe'', u_email = ''john@example.com''\<rparr>],
         user_seq = 2, posts = [], post_seq = 1\<rparr>,
        \<lparr>status = 200,
         payload = UserBody \<lparr>u_id = 1, u_name = ''John Doe'', u_email = ''john@example.com''\<rparr>\<rparr>)"
  using reachable_john parseInt_1
    update_empty_patch [OF reachable_john parseInt_1,
      of "\<lparr>u_id = 1, u_name = ''John Doe'', u_email = ''john@example.com''\<rparr>"]
  by simp

section \<open>Creating a user and reading it back\<close>

lemma parse_Inr: "parse emailRegex schema b = Inr parsed \<Longrightarrow> parsed = b |` (fst ` set schema)"
  by (auto simp: parse_def Let_def split: if_splits)

lemma find_fresh:
  "list_all (\<lambda>w. u_id w < n) xs \<Longrightarrow> find (\<lambda>w. u_id w = n) (xs @ [u]) = (if u_id u = n then Some u else None)"
  by (induction xs) auto

lemma user_create_Inr:
  "user_create st name email = (st', Inr u) \<Longrightarrow>
   name = Some (JStr (u_name u)) \<and> email = Some (JStr (u_email u)) \<and> u_id u = user_seq st \<and>
   st' = st\<lparr>user_seq := user_seq st + 1, users := users st @ [u]\<rparr>"
  by (auto simp: user_create_def Let_def split: option.splits json.splits if_splits)

lemma restrict_Some: "(b |` A) k = Some v \<Longrightarrow> b k = Some v"
  by (simp add: restrict_map_def split: if_splits)

text \<open>
  C1, as the code has it. In a reachable store, when \<open>POST /users\<close> replies 201 with
  the user \<open>u\<close>, \<open>GET /users/:id\<close> with a path parameter that reads as \<open>u\<close>'s id
  replies 200 with the same \<open>u\<close>, and \<open>u\<close> is the body's \<open>name\<close> and \<open>email\<close>
  together with the generated id, which is the next value of the sequence. The other
  keys of the body are not stored: the handler passes \<open>name\<close> and \<open>email\<close> only, and
  the table has no other column.
\<close>

theorem create_then_getById:
  "reachable emailRegex schema st \<Longrightarrow>
   post_users emailRegex schema st b = (st', \<lparr>status = 201, payload = UserBody u\<rparr>) \<Longrightarrow>
   parseInt ident = Finite (u_id u) \<Longrightarrow>
   get_users_id st' ident = (st', \<lparr>status = 200, payload = UserBody u\<rparr>)
   \<and> user_json u = (b |` {''name'', ''email''})(''id'' \<mapsto> JNum (of_int (user_seq st)))"
proof -
  assume r: "reachable emailRegex schema st"
    and c: "post_users emailRegex schema st b = (st', \<lparr>status = 201, payload = UserBody u\<rparr>)"
    and p: "parseInt ident = Finite (u_id u)"
  from c obtain parsed where parsed: "parse emailRegex schema b = Inr parsed"
    and uc: "user_create st (parsed ''name'') (parsed ''email'') = (st', Inr u)"
    by (auto simp: post_users_def split: sum.splits prod.splits)
  from user_create_Inr [OF uc] have
    n: "parsed ''name'' = Some (JStr (u_name u))" and e: "parsed ''email'' = Some (JStr (u_email u))"
    and i: "u_id u = user_seq st"
    and st': "st' = st\<lparr>user_seq := user_seq st + 1, users := users st @ [u]\<rparr>"
    by simp_all
  from parse_Inr [OF parsed] n e have
    bn: "b ''name'' = Some (JStr (u_name u))" and be: "b ''email'' = Some (JStr (u_email u))"
    by (auto dest: restrict_Some)
  from r have "list_all (\<lambda>w. u_id w < user_seq st) (users st)"
    using reachable_ok by (simp add: store_ok_def)
  then have "find (\<lambda>w. u_id w = u_id u) (users st' ) = Some u"
    by (simp add: st' i find_fresh)
  then have get: "get_users_id st' ident = (st', \<lparr>status = 200, payload = UserBody u\<rparr>)"
    using p by (simp add: get_users_id_def user_findUnique_def)
  have "user_json u = (b |` {''name'', ''email''})(''id'' \<mapsto> JNum (of_int (user_seq st)))"
    by (rule ext) (simp add: user_json_def restrict_map_def bn be i)
  with get show ?thesis by simp
qed

theorem create_then_getById_witness:
  "reachable {''john@example.com''} createUserSchema_server init_db
   \<and> post_users {''john@example.com''} createUserSchema_server init_db
        [''name'' \<mapsto> JStr ''John Doe'', ''email'' \<mapsto> JStr ''john@example.com''] =
       (\<lparr>users = [\<lparr>u_id = 1, u_name = ''John Doe'', u_email = ''john@example.com''\<rparr>],
         user_seq = 2, posts = [], post_seq = 1\<rparr>,
        \<lparr>status = 201,
         payload = UserBody \<lparr>u_id = 1, u_name = ''John Doe'', u_email = ''john@example.com''\<rparr>\<rparr>)
   \<and> parseInt (js ''1'') = Finite (u_id \<lparr>u_id = 1, u_name = ''John Doe'', u_email = ''john@example.com''\<rparr>)
   \<and> get_users_id
        \<lparr>users = [\<lparr>u_id = 1, u_name = ''John Doe'', u_email = ''john@example.com''\<rparr>],
         user_seq = 2, posts = [], post_seq = 1\<rparr> (js ''1'') =
       (\<lparr>users = [\<lparr>u_id = 1, u_name = ''John Doe'', u_email = ''john@example.com''\<rparr>],
         user_seq = 2, posts = [], post_seq = 1\<rparr>,
        \<lparr>status = 200,
         payload = UserBody \<lparr>u_id = 1, u_name = ''John Doe'', u_email = ''john@example.com''\<rparr>\<rparr>)"
proof -
  have p: "parseInt (js ''1'') =
      Finite (u_id \<lparr>u_id = 1, u_name = ''John Doe'', u_email = ''john@example.com''\<rparr>)"
    by (simp add: parseInt_1)
  show ?thesis
    using reachable.start [of "{''john@example.com''}" createUserSchema_server] post_users_john p
      create_then_getById [OF reachable.start post_users_john p]
    by simp
qed

text \<open>
  C1 as it is stated fails on a body with an address: the body passes the schema of
  the route, which strips the key it does not know, the user is created and read back,
  and the record read back has no \<open>address\<close>, so it is not the body plus the id.
\<close>

theorem create_then_getById_counterexample:
  "post_users {''john@example.com''} createUserSchema_server init_db
     [''name'' \<mapsto> JStr ''John Doe'', ''email'' \<mapsto> JStr ''john@example.com'',
      ''address'' \<mapsto> JStr ''1 Main St''] =
     (\<lparr>users = [\<lparr>u_id = 1, u_name = ''John Doe'', u_email = ''john@example.com''\<rparr>],
       user_seq = 2, posts = [], post_seq = 1\<rparr>,
      \<lparr>status = 201,
       payload = UserBody \<lparr>u_id = 1, u_name = ''John Doe'', u_email = ''john@example.com''\<rparr>\<rparr>)
   \<and> get_users_id
        \<lparr>users = [\<lparr>u_id = 1, u_name = ''John Doe'', u_email = ''john@example.com''\<rparr>],
         user_seq = 2, posts = [], post_seq = 1\<rparr> (js ''1'') =
       (\<lparr>users = [\<lparr>u_id = 1, u_name = ''John Doe'', u_email = ''john@example.com''\<rparr>],
         user_seq = 2, posts = [], post_seq = 1\<rparr>,
        \<lparr>status = 200,
         payload = UserBody \<lparr>u_id = 1, u_name = ''John Doe'', u_email = ''john@example.com''\<rparr>\<rparr>)
   \<and> user_json \<lparr>u_id = 1, u_name = ''John Doe'', u_email = ''john@example.com''\<rparr> \<noteq>
       [''name'' \<mapsto> JStr ''John Doe'', ''email'' \<mapsto> JStr ''john@example.com'',
        ''address'' \<mapsto> JStr ''1 Main St'', ''id'' \<mapsto> JNum 1]
   \<and> user_json \<lparr>u_id = 1, u_name = ''John Doe'', u_email = ''john@example.com''\<rparr> ''address'' = None"
proof -
  have "user_json \<lparr>u_id = 1, u_name = ''John Doe'', u_email = ''john@example.com''\<rparr> ''address'' \<noteq>
       [''name'' \<mapsto> JStr ''John Doe'', ''email'' \<mapsto> JStr ''john@example.com'',
        ''address'' \<mapsto> JStr ''1 Main St'', ''id'' \<mapsto> JNum 1] ''address''"
    by (simp add: user_json_def)
  then have "user_json \<lparr>u_id = 1, u_name = ''John Doe'', u_email = ''john@example.com''\<rparr> \<noteq>
       [''name'' \<mapsto> JStr ''John Doe'', ''email'' \<mapsto> JStr ''john@example.com'',
        ''address'' \<mapsto> JStr ''1 Main St'', ''id'' \<mapsto> JNum 1]"
    by metis
  then show ?thesis
    by (simp add: post_users_def parse_def createUserSchema_server_def user_create_def init_db_def
        restrict_map_def Let_def get_users_id_def user_findUnique_def parseInt_1 user_json_def)
qed

section \<open>Missing fields and unknown ids\<close>

lemma missing_field_issue:
  "(k, ZString cs) \<in> set schema \<Longrightarrow> b k = None \<Longrightarrow>
   \<lparr>code = invalid_type, path = [k], message = ''Required''\<rparr>
     \<in> set (concat (map (\<lambda>(k, t). fieldIssues emailRegex [k] t (b k)) schema))"
  by (force simp: invalidType_def)

text \<open>
  What \<open>POST /users\<close> does with a body that lacks a field the schema declares as a
  string: status 400, the issue list naming the field, and the store as it was.
\<close>

lemma post_users_missing_field:
  assumes "(k, ZString cs) \<in> set schema" and "b k = None"
  shows "\<exists>errors. post_users emailRegex schema st b = (st, \<lparr>status = 400, payload = Issues errors\<rparr>)
           \<and> \<lparr>code = invalid_type, path = [k], message = ''Required''\<rparr> \<in> set errors"
proof -
  let ?errors = "concat (map (\<lambda>(k, t). fieldIssues emailRegex [k] t (b k)) schema)"
  have m: "\<lparr>code = invalid_type, path = [k], message = ''Required''\<rparr> \<in> set ?errors"
    using assms by (rule missing_field_issue)
  then have "?errors \<noteq> []" by (metis empty_iff list.set(1))
  then have "parse emailRegex schema b = Inl ?errors"
    unfolding parse_def Let_def by (simp only: if_False)
  then have "post_users emailRegex schema st b = (st, \<lparr>status = 400, payload = Issues ?errors\<rparr>)"
    by (simp add: post_users_def)
  with m show ?thesis by blast
qed

text \<open>
  C3. \<open>POST /user\<close> of \<open>app.js\<close> does not validate: a body without a name, or without
  an email, reaches the ORM client, whose rejection is thrown out of the handler, and
  the reply is status 500 with that error, not status 400 with a list of issues. No
  record is stored.
\<close>

theorem post_user_missing_field:
  "post_user st [''email'' \<mapsto> JStr e] =
     (st, \<lparr>status = 500, payload = Error PrismaClientValidationError\<rparr>)
   \<and> post_user st [''name'' \<mapsto> JStr n] =
     (st, \<lparr>status = 500, payload = Error PrismaClientValidationError\<rparr>)
   \<and> post_user init_db [''email'' \<mapsto> JStr ''john@example.com''] =
     (init_db, \<lparr>status = 500, payload = Error PrismaClientValidationError\<rparr>)"
  by (simp add: post_user_def user_create_def)

text \<open>
  C4. For an id that no stored user has, \<open>PUT /users/:id\<close> and \<open>DELETE /users/:id\<close>
  reply 500: the ORM client's error P2025 is thrown out of the handler, which has no
  branch for a missing record. Neither route ever replies 404.
\<close>

theorem unknown_id_replies_500:
  "put_users_id init_db (js ''7'') [''name'' \<mapsto> JStr ''Jane Doe''] =
     (init_db, \<lparr>status = 500, payload = Error P2025\<rparr>)
   \<and> delete_users_id init_db (js ''7'') = (init_db, \<lparr>status = 500, payload = Error P2025\<rparr>)
   \<and> status (snd (put_users_id st ident b)) \<noteq> 404
   \<and> status (snd (delete_users_id st ident)) \<noteq> 404"
proof -
  have 7: "parseInt (js ''7'') = Finite 7"
    by (simp add: parseInt_def js_def isWhite_def isDigit_def digitVal_def mathInt_def
        toDouble_small)
  have "status (snd (put_users_id st ident b)) \<noteq> 404"
    by (simp add: put_users_id_def split: prod.splits sum.splits)
  moreover have "status (snd (delete_users_id st ident)) \<noteq> 404"
    by (simp add: delete_users_id_def split: prod.splits sum.splits)
  ultimately show ?thesis
    by (simp add: 7 put_users_id_def delete_users_id_def user_update_def user_delete_def
        strArg_def init_db_def)
qed

text \<open>The same two routes on any store, for any id that no stored user has.\<close>

lemma put_delete_unknown_id:
  assumes "parseInt ident = Finite n" and "n \<notin> u_id ` set (users st)"
  shows "delete_users_id st ident = (st, \<lparr>status = 500, payload = Error P2025\<rparr>)"
    and "status (snd (put_users_id st ident b)) = 500 \<and> fst (put_users_id st ident b) = st"
proof -
  have "find (\<lambda>u. u_id u = n) (users st) = None"
    using assms(2) by (auto simp: find_None_iff)
  then show "delete_users_id st ident = (st, \<lparr>status = 500, payload = Error P2025\<rparr>)"
    and "status (snd (put_users_id st ident b)) = 500 \<and> fst (put_users_id st ident b) = st"
    using assms(1)
    by (simp_all add: delete_users_id_def user_delete_def put_users_id_def user_update_def)
qed

section \<open>Creating a post for an unknown user\<close>

lemma parse_post_Inr:
  assumes "parse emailRegex createPostSchema b = Inr parsed"
  shows "\<exists>t c r. parsed ''title'' = Some (JStr t) \<and> parsed ''content'' = Some (JStr c)
           \<and> parsed ''userId'' = Some (JNum r) \<and> b ''userId'' = Some (JNum r) \<and> r = of_int \<lfloor>r\<rfloor>"
proof -
  from assms have p: "parsed = b |` {''title'', ''content'', ''userId''}"
    by (auto dest!: parse_Inr simp: createPostSchema_def)
  from assms have
    "fieldIssues emailRegex [''title''] (ZString [Min 3 ''Title must be at least 3 characters long'']) (b ''title'') = []"
    "fieldIssues emailRegex [''content''] (ZString [Min 10 ''Content must be at least 10 characters long'']) (b ''content'') = []"
    "fieldIssues emailRegex [''userId''] (ZNumber [IsInt ''User ID must be an integer'', Positive]) (b ''userId'') = []"
    by (simp_all add: parse_def createPostSchema_def Let_def split: if_splits)
  then obtain t c r where "b ''title'' = Some (JStr t)" "b ''content'' = Some (JStr c)"
    "b ''userId'' = Some (JNum r)" "r = of_int \<lfloor>r\<rfloor>"
    by (auto split: option.splits json.splits if_splits)
  then show ?thesis by (simp add: p restrict_map_def)
qed

text \<open>
  C7, as the code has it. \<open>POST /posts\<close> does not look the user up. For a body whose
  \<open>userId\<close> is the id of no stored user, the reply has status 400 and no post is
  stored; what the reply carries is the schema's issue list when the body fails the
  schema and, when it passes, the store's foreign key error P2003, which the handler's
  \<open>catch\<close> sends as it is.
\<close>

theorem create_post_unknown_user:
  "b ''userId'' \<notin> (\<lambda>u. Some (JNum (of_int (u_id u)))) ` set (users st) \<Longrightarrow>
   status (snd (post_posts emailRegex now st b)) = 400
   \<and> posts (fst (post_posts emailRegex now st b)) = posts st
   \<and> users (fst (post_posts emailRegex now st b)) = users st
   \<and> payload (snd (post_posts emailRegex now st b)) =
       (case parse emailRegex createPostSchema b of
          Inl errors \<Rightarrow> Issues errors
        | Inr parsed \<Rightarrow> Error P2003)"
proof (cases "parse emailRegex createPostSchema b")
  case (Inl errors)
  then show ?thesis by (simp add: post_posts_def)
next
  case (Inr parsed)
  assume unknown: "b ''userId'' \<notin> (\<lambda>u. Some (JNum (of_int (u_id u)))) ` set (users st)"
  from parse_post_Inr [OF Inr] obtain t c r where
    v: "parsed ''title'' = Some (JStr t)" "parsed ''content'' = Some (JStr c)"
      "parsed ''userId'' = Some (JNum r)" "b ''userId'' = Some (JNum r)" and r: "r = of_int \<lfloor>r\<rfloor>"
    by blast
  have "\<lfloor>r\<rfloor> \<notin> u_id ` set (users st)"
  proof
    assume "\<lfloor>r\<rfloor> \<in> u_id ` set (users st)"
    then obtain u where "u \<in> set (users st)" "u_id u = \<lfloor>r\<rfloor>" by auto
    then have "b ''userId'' = (\<lambda>u. Some (JNum (of_int (u_id u)))) u"
      using v(4) r by simp
    with \<open>u \<in> set (users st)\<close> unknown show False by blast
  qed
  then have "post_create now st (parsed ''title'') (parsed ''content'') (parsed ''userId'') =
      (st\<lparr>post_seq := post_seq st + 1\<rparr>, Inl P2003)"
    using v r by (simp add: post_create_def Let_def)
  then show ?thesis using Inr by (simp add: post_posts_def)
qed

text \<open>With John Doe stored under id 1, a post for user 2.\<close>

theorem create_post_unknown_user_witness:
  "[''title'' \<mapsto> JStr ''First Post'', ''content'' \<mapsto> JStr ''This is my first post!'',
         ''userId'' \<mapsto> JNum 2] ''userId''
      \<notin> (\<lambda>u. Some (JNum (of_int (u_id u)))) ` set (users
       \<lparr>users = [\<lparr>u_id = 1, u_name = ''John Doe'', u_email = ''john@example.com''\<rparr>],
        user_seq = 2, posts = [], post_seq = 1\<rparr>)
   \<and> status (snd (post_posts {} 0
       \<lparr>users = [\<lparr>u_id = 1, u_name = ''John Doe'', u_email = ''john@example.com''\<rparr>],
        user_seq = 2, posts = [], post_seq = 1\<rparr>
        [''title'' \<mapsto> JStr ''First Post'', ''content'' \<mapsto> JStr ''This is my first post!'',
         ''userId'' \<mapsto> JNum 2])) = 400
   \<and> posts (fst (post_posts {} 0
       \<lparr>users = [\<lparr>u_id = 1, u_name = ''John Doe'', u_email = ''john@example.com''\<rparr>],
        user_seq = 2, posts = [], post_seq = 1\<rparr>
        [''title'' \<mapsto> JStr ''First Post'', ''content'' \<mapsto> JStr ''This is my first post!'',
         ''userId'' \<mapsto> JNum 2])) = []
   \<and> payload (snd (post_posts {} 0
       \<lparr>users = [\<lparr>u_id = 1, u_name = ''John Doe'', u_email = ''john@example.com''\<rparr>],
        user_seq = 2, posts = [], post_seq = 1\<rparr>
        [''title'' \<mapsto> JStr ''First Post'', ''content'' \<mapsto> JStr ''This is my first post!'',
         ''userId'' \<mapsto> JNum 2])) = Error P2003"
  using create_post_unknown_user [where emailRegex = "{}" and now = 0
      and st = "\<lparr>users = [\<lparr>u_id = 1, u_name = ''John Doe'', u_email = ''john@example.com''\<rparr>],
        user_seq = 2, posts = [], post_seq = 1\<rparr>"
      and b = "[''title'' \<mapsto> JStr ''First Post'', ''content'' \<mapsto> JStr ''This is my first post!'',
         ''userId'' \<mapsto> JNum 2]"]
  by (simp add: parse_def createPostSchema_def)

text \<open>
  C7 as it is stated fails on the empty store: a body that passes the schema and names
  user 1 is answered with the store's foreign key error, not with an issue list.
\<close>

theorem create_post_unknown_user_counterexample:
  "post_posts {} 0 init_db
     [''title'' \<mapsto> JStr ''First Post'', ''content'' \<mapsto> JStr ''This is my first post!'',
      ''userId'' \<mapsto> JNum 1] =
   (\<lparr>users = [], user_seq = 1, posts = [], post_seq = 2\<rparr>,
    \<lparr>status = 400, payload = Error P2003\<rparr>)"
  by (simp add: post_posts_def parse_def createPostSchema_def post_create_def init_db_def
      restrict_map_def Let_def)

section \<open>Status codes of successful replies\<close>

text \<open>
  C9, as the code has it. A reply that is not an error (status below 400) has the status
  its route sets: 201 for \<open>POST /users\<close> and \<open>POST /posts\<close>, 204 for the two
  deletes, and 200 for every read, for the two updates and for \<open>POST /user\<close> of
  \<open>app.js\<close>, which creates a user and returns its answer without setting a status.
\<close>

theorem success_status:
  "status (snd (handle emailRegex schema st rq)) < 400 \<Longrightarrow>
   status (snd (handle emailRegex schema st rq)) =
     (case rq of
        POST_users _ \<Rightarrow> 201
      | POST_posts _ _ \<Rightarrow> 201
      | DELETE_users_id _ \<Rightarrow> 204
      | DELETE_posts_id _ \<Rightarrow> 204
      | _ \<Rightarrow> 200)"
proof (cases rq)
  case (POST_users b)
  assume "status (snd (handle emailRegex schema st rq)) < 400"
  then show ?thesis
    by (simp add: POST_users post_users_def split: sum.splits prod.splits)
next
  case GET_users
  then show ?thesis by (simp add: get_users_def)
next
  case (GET_users_id i)
  assume "status (snd (handle emailRegex schema st rq)) < 400"
  then show ?thesis
    by (simp add: GET_users_id get_users_id_def split: sum.splits option.splits js_number.splits)
next
  case (PUT_users_id i b)
  assume "status (snd (handle emailRegex schema st rq)) < 400"
  then show ?thesis
    by (simp add: PUT_users_id put_users_id_def split: sum.splits prod.splits)
next
  case (DELETE_users_id i)
  assume "status (snd (handle emailRegex schema st rq)) < 400"
  then show ?thesis
    by (simp add: DELETE_users_id delete_users_id_def split: sum.splits prod.splits)
next
  case (POST_posts now b)
  assume "status (snd (handle emailRegex schema st rq)) < 400"
  then show ?thesis
    by (simp add: POST_posts post_posts_def split: sum.splits prod.splits)
next
  case GET_posts
  then show ?thesis by (simp add: get_posts_def)
next
  case (GET_posts_id i)
  assume "status (snd (handle emailRegex schema st rq)) < 400"
  then show ?thesis
    by (simp add: GET_posts_id get_posts_id_def split: sum.splits option.splits prod.splits)
next
  case (PUT_posts_id i b)
  assume "status (snd (handle emailRegex schema st rq)) < 400"
  then show ?thesis
    by (simp add: PUT_posts_id put_posts_id_def split: sum.splits prod.splits)
next
  case (DELETE_posts_id i)
  assume "status (snd (handle emailRegex schema st rq)) < 400"
  then show ?thesis
    by (simp add: DELETE_posts_id delete_posts_id_def split: sum.splits prod.splits)
next
  case (POST_user b)
  assume "status (snd (handle emailRegex schema st rq)) < 400"
  then show ?thesis
    by (simp add: POST_user post_user_def split: sum.splits prod.splits)
qed

lemma delete_users_john:
  "delete_users_id
     \<lparr>users = [\<lparr>u_id = 1, u_name = ''John Doe'', u_email = ''john@example.com''\<rparr>],
      user_seq = 2, posts = [], post_seq = 1\<rparr> (js ''1'') =
     (\<lparr>users = [], user_seq = 2, posts = [], post_seq = 1\<rparr>, \<lparr>status = 204, payload = Empty\<rparr>)"
  by (simp add: delete_users_id_def user_delete_def parseInt_1)

text \<open>A create that replies 201 and a delete that replies 204.\<close>

theorem success_status_witness:
  "status (snd (handle {''john@example.com''} createUserSchema_server init_db
      (POST_users [''name'' \<mapsto> JStr ''John Doe'', ''email'' \<mapsto> JStr ''john@example.com'']))) < 400
   \<and> status (snd (handle {''john@example.com''} createUserSchema_server init_db
      (POST_users [''name'' \<mapsto> JStr ''John Doe'', ''email'' \<mapsto> JStr ''john@example.com'']))) = 201
   \<and> status (snd (handle {''john@example.com''} createUserSchema_server
      \<lparr>users = [\<lparr>u_id = 1, u_name = ''John Doe'', u_email = ''john@example.com''\<rparr>],
       user_seq = 2, posts = [], post_seq = 1\<rparr> (DELETE_users_id (js ''1'')))) = 204"
  using success_status [of "{''john@example.com''}" createUserSchema_server init_db
      "POST_users [''name'' \<mapsto> JStr ''John Doe'', ''email'' \<mapsto> JStr ''john@example.com'']"]
    success_status [of "{''john@example.com''}" createUserSchema_server
      "\<lparr>users = [\<lparr>u_id = 1, u_name = ''John Doe'', u_email = ''john@example.com''\<rparr>],
        user_seq = 2, posts = [], post_seq = 1\<rparr>" "DELETE_users_id (js ''1'')"]
  by (simp add: post_users_john delete_users_john)

text \<open>
  C9 as it is stated fails for \<open>POST /user\<close> of \<open>app.js\<close>: on the empty store the
  route creates the user and replies 200, not 201.
\<close>

theorem success_status_counterexample:
  "post_user init_db [''name'' \<mapsto> JStr ''John Doe'', ''email'' \<mapsto> JStr ''john@example.com''] =
     (\<lparr>users = [\<lparr>u_id = 1, u_name = ''John Doe'', u_email = ''john@example.com''\<rparr>],
       user_seq = 2, posts = [], post_seq = 1\<rparr>,
      \<lparr>status = 200,
       payload = Created ''User created successfully''
         \<lparr>u_id = 1, u_name = ''John Doe'', u_email = ''john@example.com''\<rparr>\<rparr>)"
  by (simp add: post_user_def user_create_def init_db_def Let_def)

section \<open>Reading the path parameter\<close>

lemma takeWhile_prefix:
  "list_all P xs \<Longrightarrow> ys = [] \<or> \<not> P (hd ys) \<Longrightarrow> takeWhile P (xs @ ys) = xs"
  by (induction xs) (auto simp: takeWhile_eq_Nil_iff)

lemma dropWhile_prefix:
  "list_all P xs \<Longrightarrow> ys = [] \<or> \<not> P (hd ys) \<Longrightarrow> dropWhile P (xs @ ys) = ys"
  by (induction xs) (auto simp: dropWhile_eq_self_iff)

lemma decimal_digit_char:
  "isDigit 10 c \<Longrightarrow>
   \<not> isWhite c \<and> c \<noteq> of_char CHR ''+'' \<and> c \<noteq> of_char CHR ''-''
   \<and> c \<noteq> of_char CHR ''x'' \<and> c \<noteq> of_char CHR ''X''"
  by (auto simp: isDigit_def digitVal_def isWhite_def split: if_splits)

lemma zero_is_digit: "isDigit 10 (of_char CHR ''0'')"
  by (simp add: isDigit_def digitVal_def)

lemma sign_not_white: "\<not> isWhite (of_char CHR ''+'')" "\<not> isWhite (of_char CHR ''-'')"
  by (simp_all add: isWhite_def)

lemma parseInt_trim:
  assumes "list_all isWhite ws" and "S = [] \<or> \<not> isWhite (hd S)"
  shows "parseInt (ws @ S) = parseInt S"
proof -
  have 1: "dropWhile isWhite (ws @ S) = S"
    using assms by (rule dropWhile_prefix)
  have 2: "dropWhile isWhite S = S"
    using assms(2) by (cases S) auto
  show ?thesis unfolding parseInt_def 1 2 ..
qed

text \<open>
  What is left of \<open>parseInt\<close> once the white space and the sign are read: the radix
  and the digits.
\<close>

lemma parseInt_signed:
  assumes sg: "sg \<in> {[], js ''+'', js ''-''}"
    and body: "sg = [] \<longrightarrow> body = [] \<or> (\<not> isWhite (hd body) \<and> hd body \<noteq> of_char CHR ''+''
        \<and> hd body \<noteq> of_char CHR ''-'')"
  shows "parseInt (sg @ body) =
    (let hex = (take 2 body = js ''0x'' \<or> take 2 body = js ''0X'');
         R = (if hex then 16 else 10);
         Z = takeWhile (isDigit R) (if hex then drop 2 body else body)
     in if Z = [] then NaN else toDouble (if sg = js ''-'' then - 1 else 1) (mathInt R Z))"
proof -
  from sg consider "sg = []" | "sg = js ''+''" | "sg = js ''-''" by auto
  then show ?thesis
  proof cases
    case 1
    with body have "dropWhile isWhite body = body" by (cases body) auto
    with 1 body show ?thesis
      by (cases body) (simp_all add: parseInt_def Let_def js_def)
  next
    case 2
    then show ?thesis using sign_not_white by (simp add: parseInt_def Let_def js_def)
  next
    case 3
    then show ?thesis using sign_not_white by (simp add: parseInt_def Let_def js_def)
  qed
qed

lemma parseInt_skip:
  assumes ws: "list_all isWhite ws"
    and sg: "sg \<in> {[], js ''+'', js ''-''}"
    and body: "sg = [] \<longrightarrow> body = [] \<or> (\<not> isWhite (hd body) \<and> hd body \<noteq> of_char CHR ''+''
        \<and> hd body \<noteq> of_char CHR ''-'')"
  shows "parseInt (ws @ sg @ body) = parseInt (sg @ body)"
proof -
  have "sg @ body = [] \<or> \<not> isWhite (hd (sg @ body))"
    using sg body sign_not_white by (auto simp: js_def)
  with ws show ?thesis by (rule parseInt_trim)
qed

lemma parseInt_decimal:
  assumes "list_all isWhite ws" and "sg \<in> {[], js ''+'', js ''-''}"
    and "ds \<noteq> []" and "list_all (isDigit 10) ds"
    and "rest = [] \<or> \<not> isDigit 10 (hd rest)"
    and "take 2 (ds @ rest) \<notin> {js ''0x'', js ''0X''}"
  shows "parseInt (ws @ sg @ ds @ rest) =
    toDouble (if sg = js ''-'' then - 1 else 1) (mathInt 10 ds)"
proof -
  from assms(3,4) have "isDigit 10 (hd (ds @ rest))" by (cases ds) auto
  then have b: "sg = [] \<longrightarrow> ds @ rest = [] \<or> (\<not> isWhite (hd (ds @ rest))
      \<and> hd (ds @ rest) \<noteq> of_char CHR ''+'' \<and> hd (ds @ rest) \<noteq> of_char CHR ''-'')"
    using decimal_digit_char by blast
  have "parseInt (ws @ sg @ ds @ rest) = parseInt (sg @ ds @ rest)"
    using assms(1,2) b by (rule parseInt_skip)
  also have "\<dots> = toDouble (if sg = js ''-'' then - 1 else 1) (mathInt 10 ds)"
    using assms(3,6) parseInt_signed [OF assms(2) b]
    by (simp add: takeWhile_prefix [OF assms(4,5)])
  finally show ?thesis .
qed

lemma parseInt_hex:
  assumes "list_all isWhite ws" and "sg \<in> {[], js ''+'', js ''-''}"
    and "p \<in> {js ''0x'', js ''0X''}"
    and "hs \<noteq> []" and "list_all (isDigit 16) hs"
    and "tail = [] \<or> \<not> isDigit 16 (hd tail)"
  shows "parseInt (ws @ sg @ p @ hs @ tail) =
    toDouble (if sg = js ''-'' then - 1 else 1) (mathInt 16 hs)"
proof -
  from assms(3) have p: "length p = 2" "hd p = of_char CHR ''0''" "p \<noteq> []"
    by (auto simp: js_def)
  then have "isDigit 10 (hd (p @ hs @ tail))" using zero_is_digit by simp
  then have b: "sg = [] \<longrightarrow> p @ hs @ tail = [] \<or> (\<not> isWhite (hd (p @ hs @ tail))
      \<and> hd (p @ hs @ tail) \<noteq> of_char CHR ''+'' \<and> hd (p @ hs @ tail) \<noteq> of_char CHR ''-'')"
    using decimal_digit_char by blast
  have "parseInt (ws @ sg @ p @ hs @ tail) = parseInt (sg @ p @ hs @ tail)"
    using assms(1,2) b by (rule parseInt_skip)
  also have "\<dots> = toDouble (if sg = js ''-'' then - 1 else 1) (mathInt 16 hs)"
    using assms(3,4) p(1) parseInt_signed [OF assms(2) b]
    by (auto simp: takeWhile_prefix [OF assms(5,6)])
  finally show ?thesis .
qed

lemma parseInt_NaN:
  assumes "list_all isWhite ws" and "sg \<in> {[], js ''+'', js ''-''}"
    and "junk = [] \<or> (\<not> isDigit 10 (hd junk)
        \<and> (sg = [] \<longrightarrow> \<not> isWhite (hd junk) \<and> hd junk \<noteq> of_char CHR ''+''
              \<and> hd junk \<noteq> of_char CHR ''-''))"
  shows "parseInt (ws @ sg @ junk) = NaN"
proof -
  from assms(3) have b: "sg = [] \<longrightarrow> junk = [] \<or> (\<not> isWhite (hd junk)
      \<and> hd junk \<noteq> of_char CHR ''+'' \<and> hd junk \<noteq> of_char CHR ''-'')"
    by blast
  from assms(3) have nohex: "take 2 junk \<noteq> js ''0x''" "take 2 junk \<noteq> js ''0X''"
    using zero_is_digit by (cases junk; auto simp: js_def)+
  from assms(3) have nodigit: "takeWhile (isDigit 10) junk = []"
    by (cases junk) auto
  have "parseInt (ws @ sg @ junk) = parseInt (sg @ junk)"
    using assms(1,2) b by (rule parseInt_skip)
  also have "\<dots> = NaN"
    using parseInt_signed [OF assms(2) b] nohex nodigit by simp
  finally show ?thesis .
qed

lemma parseInt_hex_NaN:
  assumes "list_all isWhite ws" and "sg \<in> {[], js ''+'', js ''-''}"
    and "p \<in> {js ''0x'', js ''0X''}"
    and "junk = [] \<or> \<not> isDigit 16 (hd junk)"
  shows "parseInt (ws @ sg @ p @ junk) = NaN"
proof -
  from assms(3) have p: "length p = 2" "hd p = of_char CHR ''0''" "p \<noteq> []"
    by (auto simp: js_def)
  then have "isDigit 10 (hd (p @ junk))" using zero_is_digit by simp
  then have b: "sg = [] \<longrightarrow> p @ junk = [] \<or> (\<not> isWhite (hd (p @ junk))
      \<and> hd (p @ junk) \<noteq> of_char CHR ''+'' \<and> hd (p @ junk) \<noteq> of_char CHR ''-'')"
    using decimal_digit_char by blast
  from assms(4) have nodigit: "takeWhile (isDigit 16) junk = []"
    by (cases junk) auto
  have "parseInt (ws @ sg @ p @ junk) = parseInt (sg @ p @ junk)"
    using assms(1,2) b by (rule parseInt_skip)
  also have "\<dots> = NaN"
    using assms(3) p(1) parseInt_signed [OF assms(2) b] nodigit by auto
  finally show ?thesis .
qed

lemma digits_not_hex:
  assumes "list_all (isDigit 10) ds"
  shows "take 2 ds \<notin> {js ''0x'', js ''0X''}"
proof
  assume "take 2 ds \<in> {js ''0x'', js ''0X''}"
  then have "of_char CHR ''x'' \<in> set (take 2 ds) \<or> of_char CHR ''X'' \<in> set (take 2 ds)"
    by (auto simp: js_def)
  then have "of_char CHR ''x'' \<in> set ds \<or> of_char CHR ''X'' \<in> set ds" by (meson in_set_takeD)
  with assms show False using decimal_digit_char by (auto simp: list_all_iff)
qed

text \<open>A number that is not finite is rejected by the ORM client, and the route replies 500.\<close>

lemma NaN_replies:
  assumes "parseInt ident = NaN"
  shows "get_users_id st ident = (st, \<lparr>status = 500, payload = Error PrismaClientValidationError\<rparr>)"
    and "put_users_id st ident b = (st, \<lparr>status = 500, payload = Error PrismaClientValidationError\<rparr>)"
    and "delete_users_id st ident = (st, \<lparr>status = 500, payload = Error PrismaClientValidationError\<rparr>)"
  using assms
  by (simp_all add: get_users_id_def user_findUnique_def put_users_id_def user_update_def
      delete_users_id_def user_delete_def)

lemma same_id_same_reply:
  assumes "parseInt ident = parseInt ident'"
  shows "get_users_id st ident = get_users_id st ident'"
    and "put_users_id st ident b = put_users_id st ident' b"
    and "delete_users_id st ident = delete_users_id st ident'"
  using assms by (simp_all add: get_users_id_def put_users_id_def delete_users_id_def)

text \<open>Beyond \<open>2^53\<close> the double read is not always the number written.\<close>

lemma parseInt_rounds:
  "parseInt (js ''9007199254740993'') = Finite 9007199254740992"
  by (simp add: parseInt_def js_def isWhite_def isDigit_def digitVal_def mathInt_def
      toDouble_def roundToDouble_def bitLength.simps Let_def)

text \<open>
  C10, as the code has it. The path parameter is read by \<open>parseInt\<close> with no radix:
  white space \<open>ws\<close> is skipped, then one sign \<open>sg\<close>, if there is one.
  \<^item> What follows is a run of decimal digits \<open>ds\<close>, then nothing or a character that
    is not a decimal digit, and does not begin with \<open>0x\<close> or \<open>0X\<close>: the id is the
    double nearest to the signed decimal value of the run, which below \<open>2^53\<close> is that
    value itself, and \<open>GET\<close>, \<open>PUT\<close> and \<open>DELETE /users/:id\<close> answer as they
    do for the sign and the run alone.
  \<^item> What follows is \<open>0x\<close> or \<open>0X\<close> and a run of hexadecimal digits: the run is
    read in radix 16 in the same way.
  \<^item> What follows is empty or begins with a character that is not a decimal digit (or,
    after \<open>0x\<close> or \<open>0X\<close>, not a hexadecimal digit): the id is NaN, the ORM client
    rejects it, the three routes reply 500 and the store is as it was.
\<close>

theorem path_parameter:
  assumes "list_all isWhite ws" and "sg \<in> {[], js ''+'', js ''-''}"
  shows
  "(ds \<noteq> [] \<and> list_all (isDigit 10) ds \<and> (rest = [] \<or> \<not> isDigit 10 (hd rest))
      \<and> take 2 (ds @ rest) \<notin> {js ''0x'', js ''0X''} \<longrightarrow>
      parseInt (ws @ sg @ ds @ rest) = toDouble (if sg = js ''-'' then - 1 else 1) (mathInt 10 ds)
      \<and> (mathInt 10 ds < 2 ^ 53 \<longrightarrow>
           parseInt (ws @ sg @ ds @ rest) = Finite ((if sg = js ''-'' then - 1 else 1) * int (mathInt 10 ds)))
      \<and> get_users_id st (ws @ sg @ ds @ rest) = get_users_id st (sg @ ds)
      \<and> put_users_id st (ws @ sg @ ds @ rest) b = put_users_id st (sg @ ds) b
      \<and> delete_users_id st (ws @ sg @ ds @ rest) = delete_users_id st (sg @ ds))
   \<and> (p \<in> {js ''0x'', js ''0X''} \<and> hs \<noteq> [] \<and> list_all (isDigit 16) hs
        \<and> (tail = [] \<or> \<not> isDigit 16 (hd tail)) \<longrightarrow>
      parseInt (ws @ sg @ p @ hs @ tail) = toDouble (if sg = js ''-'' then - 1 else 1) (mathInt 16 hs)
      \<and> (mathInt 16 hs < 2 ^ 53 \<longrightarrow>
           parseInt (ws @ sg @ p @ hs @ tail) = Finite ((if sg = js ''-'' then - 1 else 1) * int (mathInt 16 hs))))
   \<and> (junk = [] \<or> (\<not> isDigit 10 (hd junk)
          \<and> (sg = [] \<longrightarrow> \<not> isWhite (hd junk) \<and> hd junk \<noteq> of_char CHR ''+''
                \<and> hd junk \<noteq> of_char CHR ''-'')) \<longrightarrow>
      parseInt (ws @ sg @ junk) = NaN
      \<and> get_users_id st (ws @ sg @ junk) = (st, \<lparr>status = 500, payload = Error PrismaClientValidationError\<rparr>)
      \<and> put_users_id st (ws @ sg @ junk) b = (st, \<lparr>status = 500, payload = Error PrismaClientValidationError\<rparr>)
      \<and> delete_users_id st (ws @ sg @ junk) = (st, \<lparr>status = 500, payload = Error PrismaClientValidationError\<rparr>))
   \<and> (p \<in> {js ''0x'', js ''0X''} \<and> (nohex = [] \<or> \<not> isDigit 16 (hd nohex)) \<longrightarrow>
      parseInt (ws @ sg @ p @ nohex) = NaN
      \<and> get_users_id st (ws @ sg @ p @ nohex) = (st, \<lparr>status = 500, payload = Error PrismaClientValidationError\<rparr>)
      \<and> put_users_id st (ws @ sg @ p @ nohex) b = (st, \<lparr>status = 500, payload = Error PrismaClientValidationError\<rparr>)
      \<and> delete_users_id st (ws @ sg @ p @ nohex) = (st, \<lparr>status = 500, payload = Error PrismaClientValidationError\<rparr>))"
proof (intro conjI impI)
  assume a: "ds \<noteq> [] \<and> list_all (isDigit 10) ds \<and> (rest = [] \<or> \<not> isDigit 10 (hd rest))
      \<and> take 2 (ds @ rest) \<notin> {js ''0x'', js ''0X''}"
  then have d: "ds \<noteq> []" "list_all (isDigit 10) ds" "rest = [] \<or> \<not> isDigit 10 (hd rest)"
    "take 2 (ds @ rest) \<notin> {js ''0x'', js ''0X''}" by simp_all
  show 1: "parseInt (ws @ sg @ ds @ rest) = toDouble (if sg = js ''-'' then - 1 else 1) (mathInt 10 ds)"
    using assms d by (rule parseInt_decimal)
  have "take 2 (ds @ []) \<notin> {js ''0x'', js ''0X''}"
    using digits_not_hex [OF d(2)] by simp
  with d have "parseInt ([] @ sg @ ds @ []) = toDouble (if sg = js ''-'' then - 1 else 1) (mathInt 10 ds)"
    using assms(2) by (intro parseInt_decimal) simp_all
  with 1 have same: "parseInt (ws @ sg @ ds @ rest) = parseInt (sg @ ds)" by simp
  show "get_users_id st (ws @ sg @ ds @ rest) = get_users_id st (sg @ ds)"
    and "put_users_id st (ws @ sg @ ds @ rest) b = put_users_id st (sg @ ds) b"
    and "delete_users_id st (ws @ sg @ ds @ rest) = delete_users_id st (sg @ ds)"
    using same by (rule same_id_same_reply)+
  assume "mathInt 10 ds < 2 ^ 53"
  then show "parseInt (ws @ sg @ ds @ rest) = Finite ((if sg = js ''-'' then - 1 else 1) * int (mathInt 10 ds))"
    using 1 by (simp add: toDouble_small)
next
  assume a: "p \<in> {js ''0x'', js ''0X''} \<and> hs \<noteq> [] \<and> list_all (isDigit 16) hs
        \<and> (tail = [] \<or> \<not> isDigit 16 (hd tail))"
  then have h: "p \<in> {js ''0x'', js ''0X''}" "hs \<noteq> []" "list_all (isDigit 16) hs"
    "tail = [] \<or> \<not> isDigit 16 (hd tail)" by simp_all
  show 2: "parseInt (ws @ sg @ p @ hs @ tail) = toDouble (if sg = js ''-'' then - 1 else 1) (mathInt 16 hs)"
    using assms h by (rule parseInt_hex)
  assume "mathInt 16 hs < 2 ^ 53"
  then show "parseInt (ws @ sg @ p @ hs @ tail) = Finite ((if sg = js ''-'' then - 1 else 1) * int (mathInt 16 hs))"
    using 2 by (simp add: toDouble_small)
next
  assume a: "junk = [] \<or> (\<not> isDigit 10 (hd junk)
          \<and> (sg = [] \<longrightarrow> \<not> isWhite (hd junk) \<and> hd junk \<noteq> of_char CHR ''+''
                \<and> hd junk \<noteq> of_char CHR ''-''))"
  show n: "parseInt (ws @ sg @ junk) = NaN"
    using assms a by (rule parseInt_NaN)
  show "get_users_id st (ws @ sg @ junk) = (st, \<lparr>status = 500, payload = Error PrismaClientValidationError\<rparr>)"
    and "put_users_id st (ws @ sg @ junk) b = (st, \<lparr>status = 500, payload = Error PrismaClientValidationError\<rparr>)"
    and "delete_users_id st (ws @ sg @ junk) = (st, \<lparr>status = 500, payload = Error PrismaClientValidationError\<rparr>)"
    using n by (rule NaN_replies)+
next
  assume a: "p \<in> {js ''0x'', js ''0X''} \<and> (nohex = [] \<or> \<not> isDigit 16 (hd nohex))"
  then have h: "p \<in> {js ''0x'', js ''0X''}" "nohex = [] \<or> \<not> isDigit 16 (hd nohex)"
    by simp_all
  show n: "parseInt (ws @ sg @ p @ nohex) = NaN"
    using assms h by (rule parseInt_hex_NaN)
  show "get_users_id st (ws @ sg @ p @ nohex) = (st, \<lparr>status = 500, payload = Error PrismaClientValidationError\<rparr>)"
    and "put_users_id st (ws @ sg @ p @ nohex) b = (st, \<lparr>status = 500, payload = Error PrismaClientValidationError\<rparr>)"
    and "delete_users_id st (ws @ sg @ p @ nohex) = (st, \<lparr>status = 500, payload = Error PrismaClientValidationError\<rparr>)"
    using n by (rule NaN_replies)+
qed

text \<open>
  With John Doe stored under id 1, after a no-break space (U+00A0) and a plus sign:
  \<open>1abc\<close> reads as 1 and finds him, \<open>0x1f\<close> reads as 31, and \<open>abc\<close> and
  \<open>0x\<close> read as NaN.
\<close>

theorem path_parameter_witness:
  "list_all isWhite [0xA0] \<and> js ''+'' \<in> {[], js ''+'', js ''-''}
   \<and> js ''1'' \<noteq> [] \<and> list_all (isDigit 10) (js ''1'') \<and> \<not> isDigit 10 (hd (js ''abc''))
   \<and> take 2 (js ''1'' @ js ''abc'') \<notin> {js ''0x'', js ''0X''}
   \<and> mathInt 10 (js ''1'') < 2 ^ 53
   \<and> parseInt (0xA0 # js ''+1abc'') = Finite 1
   \<and> get_users_id
       \<lparr>users = [\<lparr>u_id = 1, u_name = ''John Doe'', u_email = ''john@example.com''\<rparr>],
        user_seq = 2, posts = [], post_seq = 1\<rparr> (0xA0 # js ''+1abc'') =
      (\<lparr>users = [\<lparr>u_id = 1, u_name = ''John Doe'', u_email = ''john@example.com''\<rparr>],
        user_seq = 2, posts = [], post_seq = 1\<rparr>,
       \<lparr>status = 200, payload = UserBody \<lparr>u_id = 1, u_name = ''John Doe'', u_email = ''john@example.com''\<rparr>\<rparr>)
   \<and> list_all (isDigit 16) (js ''1f'') \<and> parseInt (0xA0 # js ''+0x1f'') = Finite 31
   \<and> parseInt (0xA0 # js ''+abc'') = NaN
   \<and> delete_users_id
       \<lparr>users = [\<lparr>u_id = 1, u_name = ''John Doe'', u_email = ''john@example.com''\<rparr>],
        user_seq = 2, posts = [], post_seq = 1\<rparr> (0xA0 # js ''+abc'') =
      (\<lparr>users = [\<lparr>u_id = 1, u_name = ''John Doe'', u_email = ''john@example.com''\<rparr>],
        user_seq = 2, posts = [], post_seq = 1\<rparr>,
       \<lparr>status = 500, payload = Error PrismaClientValidationError\<rparr>)
   \<and> parseInt (0xA0 # js ''+0x'') = NaN"
proof -
  have ws: "list_all isWhite [0xA0]" and sg: "js ''+'' \<in> {[], js ''+'', js ''-''}"
    by (simp_all add: js_def isWhite_def)
  show ?thesis
    using ws sg
      path_parameter [OF ws sg, where ds = "js ''1''" and rest = "js ''abc''" and p = "js ''0x''"
        and hs = "js ''1f''" and tail = "[]" and junk = "js ''abc''" and nohex = "[]"
        and st = "\<lparr>users = [\<lparr>u_id = 1, u_name = ''John Doe'', u_email = ''john@example.com''\<rparr>],
        user_seq = 2, posts = [], post_seq = 1\<rparr>"]
    by (simp add: js_def isDigit_def digitVal_def mathInt_def get_users_id_def
        user_findUnique_def parseInt_def isWhite_def toDouble_small)
qed

text \<open>A minus sign gives the negative id, which no stored user has.\<close>

lemma parseInt_negative:
  "parseInt (js ''-1abc'') = Finite (- 1)"
  "get_users_id
       \<lparr>users = [\<lparr>u_id = 1, u_name = ''John Doe'', u_email = ''john@example.com''\<rparr>],
        user_seq = 2, posts = [], post_seq = 1\<rparr> (js ''-1abc'') =
      (\<lparr>users = [\<lparr>u_id = 1, u_name = ''John Doe'', u_email = ''john@example.com''\<rparr>],
        user_seq = 2, posts = [], post_seq = 1\<rparr>,
       \<lparr>status = 404, payload = Message ''User not found''\<rparr>)"
  by (simp_all add: parseInt_def js_def isDigit_def digitVal_def isWhite_def mathInt_def
      get_users_id_def user_findUnique_def toDouble_small)

text \<open>
  C10 as it is stated fails twice, with John Doe stored under id 1. The parameter
  \<open>0x1\<close> has the decimal prefix \<open>0\<close> followed by a character that is not a digit,
  and is read as 1, not 0: the route finds John Doe. The parameter \<open>+1\<close> does not
  begin with a digit, and is read as 1, not as NaN: the route finds John Doe again.
\<close>

theorem path_parameter_counterexample:
  "parseInt (js ''0x1'') = Finite 1 \<and> parseInt (js ''0'') = Finite 0
   \<and> get_users_id
       \<lparr>users = [\<lparr>u_id = 1, u_name = ''John Doe'', u_email = ''john@example.com''\<rparr>],
        user_seq = 2, posts = [], post_seq = 1\<rparr> (js ''0x1'') =
      (\<lparr>users = [\<lparr>u_id = 1, u_name = ''John Doe'', u_email = ''john@example.com''\<rparr>],
        user_seq = 2, posts = [], post_seq = 1\<rparr>,
       \<lparr>status = 200, payload = UserBody \<lparr>u_id = 1, u_name = ''John Doe'', u_email = ''john@example.com''\<rparr>\<rparr>)
   \<and> parseInt (js ''+1'') = Finite 1
   \<and> get_users_id
       \<lparr>users = [\<lparr>u_id = 1, u_name = ''John Doe'', u_email = ''john@example.com''\<rparr>],
        user_seq = 2, posts = [], post_seq = 1\<rparr> (js ''+1'') =
      (\<lparr>users = [\<lparr>u_id = 1, u_name = ''John Doe'', u_email = ''john@example.com''\<rparr>],
        user_seq = 2, posts = [], post_seq = 1\<rparr>,
       \<lparr>status = 200, payload = UserBody \<lparr>u_id = 1, u_name = ''John Doe'', u_email = ''john@example.com''\<rparr>\<rparr>)"
  by (simp add: parseInt_def js_def isDigit_def digitVal_def isWhite_def mathInt_def
      get_users_id_def user_findUnique_def toDouble_small)

end
